theory Spec2Isabelle
  imports Main "HOL-Library.Signed_Division"
begin

section \<open>Data model\<close>

text \<open>
  The portfolio's records as the TypeScript interfaces of
  \<^verbatim>\<open>src/app/admin/login/page.tsx\<close> declare them. A field that may be missing
  at run time (the records come from the document store and are cast, not
  validated) is an \<open>option\<close>: \<open>None\<close> is JavaScript's \<open>undefined\<close>. For
  \<open>media\<close>, \<open>None\<close> also stands for any value that is not an array, since the
  code only ever asks \<^verbatim>\<open>project.media && Array.isArray(project.media)\<close>.
\<close>

datatype ProjectType = graphics | motion | frontend

datatype MediaType = image | video

record MediaItem =
  type :: MediaType
  url :: string

record Project =
  project_id :: string
  title :: string
  description :: string
  project_type :: ProjectType
  media :: "MediaItem list option"
  mediaUrl :: "string option"
  liveLink :: "string option"
  tags :: "string list"

text \<open>JavaScript truthiness of an optional string: \<open>undefined\<close> and \<open>""\<close> are falsy.\<close>

definition truthy :: "string option \<Rightarrow> bool" where
  "truthy s = (case s of None \<Rightarrow> False | Some u \<Rightarrow> u \<noteq> [])"

text \<open>
  The guard \<^verbatim>\<open>project.media && Array.isArray(project.media) && project.media.length > 0\<close>
  that every copy of the normalization starts with.
\<close>

definition media_is_nonempty_array :: "Project \<Rightarrow> bool" where
  "media_is_nonempty_array project =
     (case media project of None \<Rightarrow> False | Some items \<Rightarrow> length items > 0)"

text \<open>
  The object literal \<^verbatim>\<open>{type: project.type === 'motion' ? 'video' : 'image', url: project.mediaUrl}\<close>,
  built once a truthy \<open>mediaUrl\<close> has been found.
\<close>

definition legacy_item :: "Project \<Rightarrow> string \<Rightarrow> MediaItem" where
  "legacy_item project u =
     \<lparr>type = (if project_type project = motion then video else image), url = u\<rparr>"

section \<open>Media normalization, one definition per copy in the source\<close>

text \<open>\<^verbatim>\<open>ProjectPreview.mediaItems\<close>, admin dashboard (page.tsx, lines 281--294).\<close>

definition ProjectPreview_mediaItems :: "Project \<Rightarrow> MediaItem list" where
  "ProjectPreview_mediaItems project =
     (if media_is_nonempty_array project then
        (case media project of Some items \<Rightarrow> items | None \<Rightarrow> [])
      else if truthy (mediaUrl project) then
        (case mediaUrl project of Some u \<Rightarrow> [legacy_item project u] | None \<Rightarrow> [])
      else [])"

text \<open>\<^verbatim>\<open>ProjectPreviewModal.mediaItems\<close>, public page (components/UploadForm.tsx, lines 727--731).\<close>

definition ProjectPreviewModal_mediaItems :: "Project \<Rightarrow> MediaItem list" where
  "ProjectPreviewModal_mediaItems project =
     (case media project of
        Some (m # ms) \<Rightarrow> m # ms
      | _ \<Rightarrow>
        (case mediaUrl project of
           Some (c # cs) \<Rightarrow> [legacy_item project (c # cs)]
         | _ \<Rightarrow> []))"

text \<open>
  \<^verbatim>\<open>ProjectCard.firstMedia\<close>, admin dashboard card (page.tsx, lines 515--527):
  \<^verbatim>\<open>project.media[0]\<close> is read only behind the length guard; \<open>None\<close> is \<open>null\<close>.
\<close>

definition ProjectCard_firstMedia :: "Project \<Rightarrow> MediaItem option" where
  "ProjectCard_firstMedia project =
     (if media_is_nonempty_array project then
        (case media project of Some (m # ms) \<Rightarrow> Some m | _ \<Rightarrow> None)
      else if truthy (mediaUrl project) then
        (case mediaUrl project of Some u \<Rightarrow> Some (legacy_item project u) | None \<Rightarrow> None)
      else None)"

text \<open>\<^verbatim>\<open>AllProjectsModal.getFirstMedia\<close>, public page (components/UploadForm.tsx, lines 890--894).\<close>

definition getFirstMedia :: "Project \<Rightarrow> MediaItem option" where
  "getFirstMedia project =
     (case media project of
        Some (m # ms) \<Rightarrow> Some m
      | _ \<Rightarrow>
        (case mediaUrl project of
           Some (c # cs) \<Rightarrow> Some (legacy_item project (c # cs))
         | _ \<Rightarrow> None))"

text \<open>The inline ternary of the public page's project grid (components/UploadForm.tsx, lines 1286--1294).\<close>

definition PortfolioPage_firstMedia :: "Project \<Rightarrow> MediaItem option" where
  "PortfolioPage_firstMedia project =
     (if media_is_nonempty_array project then
        (case media project of Some (m # ms) \<Rightarrow> Some m | _ \<Rightarrow> None)
      else if truthy (mediaUrl project) then
        (case mediaUrl project of Some u \<Rightarrow> Some (legacy_item project u) | None \<Rightarrow> None)
      else None)"

text \<open>What "the first element, \<open>null\<close> when empty" means for a sequence.\<close>

definition first_or_null :: "'a list \<Rightarrow> 'a option" where
  "first_or_null xs = (case xs of [] \<Rightarrow> None | x # _ \<Rightarrow> Some x)"

section \<open>JavaScript numbers, as far as the gallery index needs them\<close>

text \<open>
  The index is a JavaScript number. The values that occur are integers, and \<open>NaN\<close>,
  which is what \<^verbatim>\<open>x % 0\<close> evaluates to (JavaScript does not throw on a zero
  divisor). \<^verbatim>\<open>%\<close> is the truncating remainder, whose sign follows the dividend:
  \<open>smod\<close> on \<open>int\<close>.
\<close>

datatype jsnum = Num int | NaN

fun js_add :: "jsnum \<Rightarrow> jsnum \<Rightarrow> jsnum" where
  "js_add (Num a) (Num b) = Num (a + b)"
| "js_add _ _ = NaN"

fun js_sub :: "jsnum \<Rightarrow> jsnum \<Rightarrow> jsnum" where
  "js_sub (Num a) (Num b) = Num (a - b)"
| "js_sub _ _ = NaN"

fun js_rem :: "jsnum \<Rightarrow> jsnum \<Rightarrow> jsnum" where
  "js_rem (Num a) (Num b) = (if b = 0 then NaN else Num (a smod b))"
| "js_rem _ _ = NaN"

definition array_length :: "'a list \<Rightarrow> jsnum" where
  "array_length xs = Num (int (length xs))"

section \<open>Media gallery viewer\<close>

text \<open>
  \<^verbatim>\<open>ProjectPreview\<close> (admin) and \<^verbatim>\<open>ProjectPreviewModal\<close> (public) hold the same
  code after their normalization: one piece of state, \<open>currentMediaIndex\<close>, and the
  functions below, which read the normalized sequence \<open>mediaItems\<close>. The
  functions are therefore written once, over any \<open>mediaItems\<close>.
\<close>

definition initial_currentMediaIndex :: jsnum where
  "initial_currentMediaIndex = Num 0"

definition hasMultipleMedia :: "MediaItem list \<Rightarrow> bool" where
  "hasMultipleMedia mediaItems = (length mediaItems > 1)"

text \<open>\<^verbatim>\<open>mediaItems[currentMediaIndex]\<close>: \<open>undefined\<close> out of range and at \<open>NaN\<close>.\<close>

definition currentMedia :: "MediaItem list \<Rightarrow> jsnum \<Rightarrow> MediaItem option" where
  "currentMedia mediaItems idx =
     (case idx of
        Num i \<Rightarrow> if 0 \<le> i \<and> i < int (length mediaItems) then Some (mediaItems ! nat i) else None
      | NaN \<Rightarrow> None)"

text \<open>The updaters handed to \<open>setCurrentMediaIndex\<close>; neither has a guard of its own.\<close>

definition goToNext :: "MediaItem list \<Rightarrow> jsnum \<Rightarrow> jsnum" where
  "goToNext mediaItems prev = js_rem (js_add prev (Num 1)) (array_length mediaItems)"

definition goToPrevious :: "MediaItem list \<Rightarrow> jsnum \<Rightarrow> jsnum" where
  "goToPrevious mediaItems prev =
     js_rem (js_add (js_sub prev (Num 1)) (array_length mediaItems)) (array_length mediaItems)"

datatype key = ArrowRight | ArrowLeft | Escape | OtherKey

text \<open>What an event handler calls: at most one of the component's functions.\<close>

datatype call =
    call_goToNext
  | call_goToPrevious
  | call_onClose
  | call_setCurrentMediaIndex nat

definition handleKeyPress :: "MediaItem list \<Rightarrow> key \<Rightarrow> call option" where
  "handleKeyPress mediaItems k =
     (if k = ArrowRight \<and> hasMultipleMedia mediaItems then Some call_goToNext
      else if k = ArrowLeft \<and> hasMultipleMedia mediaItems then Some call_goToPrevious
      else if k = Escape then Some call_onClose
      else None)"

text \<open>
  The controls exist only where the JSX renders them: the two arrows inside
  \<^verbatim>\<open>{currentMedia && ( ... {hasMultipleMedia && ...})}\<close>, the thumbnail strip inside
  \<^verbatim>\<open>{hasMultipleMedia && mediaItems.map(...)}\<close>. A click on a control that is not
  rendered cannot happen; the model gives it no handler.
\<close>

definition arrows_rendered :: "MediaItem list \<Rightarrow> jsnum \<Rightarrow> bool" where
  "arrows_rendered mediaItems idx =
     (currentMedia mediaItems idx \<noteq> None \<and> hasMultipleMedia mediaItems)"

definition thumbnail_rendered :: "MediaItem list \<Rightarrow> nat \<Rightarrow> bool" where
  "thumbnail_rendered mediaItems i = (hasMultipleMedia mediaItems \<and> i < length mediaItems)"

definition position_indicator :: "MediaItem list \<Rightarrow> jsnum \<Rightarrow> (jsnum \<times> jsnum) option" where
  "position_indicator mediaItems idx =
     (if hasMultipleMedia mediaItems then Some (js_add idx (Num 1), array_length mediaItems)
      else None)"

datatype event =
    KeyDown key
  | ClickNext
  | ClickPrevious
  | ClickThumbnail nat
  | ClickCloseButton
  | ClickBackdrop

fun handler :: "MediaItem list \<Rightarrow> jsnum \<Rightarrow> event \<Rightarrow> call option" where
  "handler mediaItems idx (KeyDown k) = handleKeyPress mediaItems k"
| "handler mediaItems idx ClickNext =
     (if arrows_rendered mediaItems idx then Some call_goToNext else None)"
| "handler mediaItems idx ClickPrevious =
     (if arrows_rendered mediaItems idx then Some call_goToPrevious else None)"
| "handler mediaItems idx (ClickThumbnail i) =
     (if thumbnail_rendered mediaItems i then Some (call_setCurrentMediaIndex i) else None)"
| "handler mediaItems idx ClickCloseButton = Some call_onClose"
| "handler mediaItems idx ClickBackdrop = Some call_onClose"

text \<open>Running a call on the state; \<open>None\<close> is the closed (unmounted) viewer.\<close>

fun run_call :: "MediaItem list \<Rightarrow> jsnum \<Rightarrow> call \<Rightarrow> jsnum option" where
  "run_call mediaItems idx call_goToNext = Some (goToNext mediaItems idx)"
| "run_call mediaItems idx call_goToPrevious = Some (goToPrevious mediaItems idx)"
| "run_call mediaItems idx call_onClose = None"
| "run_call mediaItems idx (call_setCurrentMediaIndex i) = Some (Num (int i))"

definition viewer_step :: "MediaItem list \<Rightarrow> jsnum \<Rightarrow> event \<Rightarrow> jsnum option" where
  "viewer_step mediaItems idx ev =
     (case handler mediaItems idx ev of
        None \<Rightarrow> Some idx
      | Some c \<Rightarrow> run_call mediaItems idx c)"

fun viewer_run :: "MediaItem list \<Rightarrow> jsnum \<Rightarrow> event list \<Rightarrow> jsnum option" where
  "viewer_run mediaItems idx [] = Some idx"
| "viewer_run mediaItems idx (ev # evs) =
     (case viewer_step mediaItems idx ev of
        None \<Rightarrow> None
      | Some idx' \<Rightarrow> viewer_run mediaItems idx' evs)"

text \<open>
  The viewer's specified range for the index: an integer in \<open>[0, length)\<close>.
\<close>

definition index_in_range :: "MediaItem list \<Rightarrow> jsnum \<Rightarrow> bool" where
  "index_in_range mediaItems idx =
     (case idx of Num i \<Rightarrow> 0 \<le> i \<and> i < int (length mediaItems) | NaN \<Rightarrow> False)"

text \<open>
  The parents. The admin page renders \<^verbatim>\<open>{previewProject && <ProjectPreview project={previewProject} .../>}\<close>
  with no \<open>key\<close>: React mounts the viewer (state \<open>0\<close>) when \<open>previewProject\<close> goes
  from \<open>null\<close> to a project, unmounts it when it goes back to \<open>null\<close>, and keeps
  the mounted instance with its state when the prop changes from one project to
  another. The pair is the viewer's prop and its state.
\<close>

definition AdminPage_setPreviewProject ::
    "Project option \<Rightarrow> (Project \<times> jsnum) option \<Rightarrow> (Project \<times> jsnum) option" where
  "AdminPage_setPreviewProject new cur =
     (case new of
        None \<Rightarrow> None
      | Some p \<Rightarrow>
        (case cur of
           None \<Rightarrow> Some (p, initial_currentMediaIndex)
         | Some (old, idx) \<Rightarrow> Some (p, idx)))"

text \<open>
  The public page declares \<^verbatim>\<open>ProjectPreviewModal\<close> inside the body of
  \<^verbatim>\<open>PortfolioPage\<close>, so every render of the page makes a new component type and
  React mounts the viewer afresh whenever \<open>selectedProject\<close> is set.
\<close>

definition PortfolioPage_setSelectedProject ::
    "Project option \<Rightarrow> (Project \<times> jsnum) option \<Rightarrow> (Project \<times> jsnum) option" where
  "PortfolioPage_setSelectedProject new cur =
     (case new of
        None \<Rightarrow> None
      | Some p \<Rightarrow> Some (p, initial_currentMediaIndex))"

section \<open>Session gate: the authentication effect of the admin page\<close>

datatype ToastType = success | error | warning

record User =
  uid :: string
  email :: "string option"

text \<open>
  What \<^verbatim>\<open>getDoc(doc(db, 'users', uid))\<close> comes back with: a rejected promise, a
  snapshot whose \<open>exists()\<close> is false, or a record, of which only \<open>role\<close> is read
  (\<open>None\<close> when the record has no such field).
\<close>

datatype role_fetch = FetchFailed | RecordAbsent | RecordPresent "string option"

text \<open>Everything the callback does, in the order in which it does it.\<close>

datatype gate_effect =
    showToast ToastType string
  | setUser "User option"
  | setIsAdmin bool
  | setCheckingAuth bool
  | setHasShownWelcome bool
  | signOut
  | router_push string
  | setTimeout_router_push nat string
  | console_error

definition login_route :: string where
  "login_route = ''/admin/login''"

text \<open>The check mark of the source's message is U+2713, three bytes in UTF-8.\<close>

definition access_granted_message :: string where
  "access_granted_message = [CHR 0xE2, CHR 0x9C, CHR 0x93] @ '' Admin access granted''"

definition access_granted :: gate_effect where
  "access_granted = showToast success access_granted_message"

definition record_not_found :: gate_effect where
  "record_not_found = showToast error ''User record not found. Please contact support.''"

text \<open>
  One delivery of the identity stream, with what the environment answers while the
  callback runs: the identity, the role fetch, whether \<open>signOut\<close> rejects, and the
  value of the effect's \<open>isMounted\<close> flag at each of the three places that read it.
\<close>

record delivery =
  currentUser :: "User option"
  mounted_at_entry :: bool
  getDoc_result :: role_fetch
  mounted_after_getDoc :: bool
  signOut_rejects :: bool
  mounted_in_catch :: bool

text \<open>The \<^verbatim>\<open>catch\<close> block (page.tsx, lines 713--721).\<close>

definition catch_block :: "delivery \<Rightarrow> gate_effect list" where
  "catch_block d =
     (if \<not> mounted_in_catch d then []
      else [console_error,
            showToast error ''Failed to verify admin status'',
            setIsAdmin False, setUser None, setCheckingAuth False,
            router_push login_route])"

text \<open>
  The callback given to \<^verbatim>\<open>onAuthStateChanged\<close> (page.tsx, lines 666--722). Its first argument
  is the \<open>hasShownWelcome\<close> the closure captured when the effect ran: the callback
  reads that constant, not the component's current state.
\<close>

definition auth_callback :: "bool \<Rightarrow> delivery \<Rightarrow> gate_effect list" where
  "auth_callback hasShownWelcome_captured d =
     (if \<not> mounted_at_entry d then []
      else case currentUser d of
        None \<Rightarrow>
          [setUser None, setIsAdmin False, setCheckingAuth False, router_push login_route]
      | Some u \<Rightarrow>
        (case getDoc_result d of
           FetchFailed \<Rightarrow> catch_block d
         | RecordAbsent \<Rightarrow>
             if \<not> mounted_after_getDoc d then []
             else [console_error, record_not_found,
                   setIsAdmin False, setUser None, setCheckingAuth False, signOut]
                  @ (if signOut_rejects d then catch_block d
                     else [router_push login_route])
         | RecordPresent role \<Rightarrow>
             if \<not> mounted_after_getDoc d then []
             else if role = Some ''admin'' then
               [setIsAdmin True, setUser (Some u)]
               @ (if \<not> hasShownWelcome_captured
                  then [access_granted, setHasShownWelcome True] else [])
               @ [setCheckingAuth False]
             else
               [showToast error ''Access denied: Admin privileges required'',
                setIsAdmin False, setUser None, signOut]
               @ (if signOut_rejects d then catch_block d
                  else [setTimeout_router_push 2000 login_route, setCheckingAuth False])))"

text \<open>
  The component's state (the \<open>useState\<close> cells the callback writes). \<open>user\<close> starts
  \<open>undefined\<close> (\<open>None\<close>); \<open>Some None\<close> is \<open>null\<close>.
\<close>

record gate_state =
  user :: "User option option"
  isAdmin :: bool
  checkingAuth :: bool
  hasShownWelcome :: bool

fun apply_effect :: "gate_state \<Rightarrow> gate_effect \<Rightarrow> gate_state" where
  "apply_effect st (setUser u) = st\<lparr>user := Some u\<rparr>"
| "apply_effect st (setIsAdmin b) = st\<lparr>isAdmin := b\<rparr>"
| "apply_effect st (setCheckingAuth b) = st\<lparr>checkingAuth := b\<rparr>"
| "apply_effect st (setHasShownWelcome b) = st\<lparr>hasShownWelcome := b\<rparr>"
| "apply_effect st _ = st"

text \<open>
  A mounted session: the state, the \<open>hasShownWelcome\<close> that the subscribed callback
  captured, and the effects so far.
\<close>

record session =
  state :: gate_state
  captured :: bool
  log :: "gate_effect list"

definition mount_session :: session where
  "mount_session =
     \<lparr>state = \<lparr>user = None, isAdmin = False, checkingAuth = True, hasShownWelcome = False\<rparr>,
      captured = False,
      log = []\<rparr>"

definition deliver :: "session \<Rightarrow> delivery \<Rightarrow> session" where
  "deliver s d =
     (let effects = auth_callback (captured s) d
      in s\<lparr>state := foldl apply_effect (state s) effects, log := log s @ effects\<rparr>)"

text \<open>
  React commits the state: the component renders again and, \<open>hasShownWelcome\<close> being
  in the effect's dependency array, a changed value runs the effect again, which
  subscribes a callback that captured the new value. That new subscription is
  what makes the provider deliver the current identity once more (the replay).
\<close>

definition commit :: "session \<Rightarrow> session" where
  "commit s = s\<lparr>captured := hasShownWelcome (state s)\<rparr>"

fun session_run :: "session \<Rightarrow> delivery list \<Rightarrow> session" where
  "session_run s [] = s"
| "session_run s (d # ds) = session_run (commit (deliver s d)) ds"

definition admin_delivery :: "delivery \<Rightarrow> bool" where
  "admin_delivery d =
     (currentUser d \<noteq> None \<and> mounted_at_entry d \<and> mounted_after_getDoc d
      \<and> getDoc_result d = RecordPresent (Some ''admin''))"



section \<open>Upload and edit form: \<open>onSubmit\<close>\<close>

text \<open>
  Strings are byte strings in UTF-8, as the check mark of the messages shows.
  \<open>String.prototype.trim\<close> removes the white space and line terminators of
  ECMAScript at both ends: U+0009 to U+000D, U+0020, U+00A0, U+1680, U+2000 to
  U+200A, U+2028, U+2029, U+202F, U+205F, U+3000 and U+FEFF. Each is listed here
  by its UTF-8 encoding.
\<close>

definition whitespace_encodings :: "string list" where
  "whitespace_encodings =
     [[CHR 0x09], [CHR 0x0A], [CHR 0x0B], [CHR 0x0C], [CHR 0x0D], [CHR 0x20],
      [CHR 0xC2, CHR 0xA0],
      [CHR 0xE1, CHR 0x9A, CHR 0x80],
      [CHR 0xE2, CHR 0x80, CHR 0x80], [CHR 0xE2, CHR 0x80, CHR 0x81],
      [CHR 0xE2, CHR 0x80, CHR 0x82], [CHR 0xE2, CHR 0x80, CHR 0x83],
      [CHR 0xE2, CHR 0x80, CHR 0x84], [CHR 0xE2, CHR 0x80, CHR 0x85],
      [CHR 0xE2, CHR 0x80, CHR 0x86], [CHR 0xE2, CHR 0x80, CHR 0x87],
      [CHR 0xE2, CHR 0x80, CHR 0x88], [CHR 0xE2, CHR 0x80, CHR 0x89],
      [CHR 0xE2, CHR 0x80, CHR 0x8A],
      [CHR 0xE2, CHR 0x80, CHR 0xA8], [CHR 0xE2, CHR 0x80, CHR 0xA9],
      [CHR 0xE2, CHR 0x80, CHR 0xAF],
      [CHR 0xE2, CHR 0x81, CHR 0x9F],
      [CHR 0xE3, CHR 0x80, CHR 0x80],
      [CHR 0xEF, CHR 0xBB, CHR 0xBF]]"

text \<open>\<open>after_prefix p s\<close> is what follows \<open>p\<close> in \<open>s\<close>, if \<open>s\<close> starts with \<open>p\<close>.\<close>

fun after_prefix :: "string \<Rightarrow> string \<Rightarrow> string option" where
  "after_prefix [] s = Some s"
| "after_prefix (p # ps) [] = None"
| "after_prefix (p # ps) (c # cs) = (if p = c then after_prefix ps cs else None)"

text \<open>One white space character removed from the front, if there is one.\<close>

fun skip_one :: "string list \<Rightarrow> string \<Rightarrow> string option" where
  "skip_one [] s = None"
| "skip_one (e # es) s =
     (case after_prefix e s of Some r \<Rightarrow> Some r | None \<Rightarrow> skip_one es s)"

text \<open>
  At most \<open>n\<close> characters removed from the front; with \<open>n\<close> the length of the string
  that is all of them, since each takes at least one byte.
\<close>

fun strip_start :: "string list \<Rightarrow> nat \<Rightarrow> string \<Rightarrow> string" where
  "strip_start es 0 s = s"
| "strip_start es (Suc n) s =
     (case skip_one es s of None \<Rightarrow> s | Some r \<Rightarrow> strip_start es n r)"

definition trimStart :: "string \<Rightarrow> string" where
  "trimStart s = strip_start whitespace_encodings (length s) s"

definition trimEnd :: "string \<Rightarrow> string" where
  "trimEnd s = rev (strip_start (map rev whitespace_encodings) (length s) (rev s))"

definition trim :: "string \<Rightarrow> string" where
  "trim s = trimEnd (trimStart s)"




text \<open>\<^verbatim>\<open>s.split(',')\<close>: the pieces between the commas, one piece for the empty string.\<close>

fun split_comma :: "string \<Rightarrow> string list" where
  "split_comma [] = [[]]"
| "split_comma (c # cs) =
     (if c = CHR '','' then [] # split_comma cs
      else (case split_comma cs of
              w # ws \<Rightarrow> (c # w) # ws
            | [] \<Rightarrow> [[c]]))"

record IFormInput =
  form_title :: string
  form_description :: "string option"
  form_type :: ProjectType
  form_liveLink :: "string option"
  form_tags :: "string option"

record File =
  file_name :: string
  file_size :: nat

record UploadFormProps =
  props_user :: "User option"
  initialData :: "Project option"
  onFinish_given :: bool

text \<open>The component's own state that \<open>onSubmit\<close> reads: \<open>selectedFiles\<close> and \<open>watch('type')\<close>.\<close>

record form_state =
  selectedFiles :: "File list"
  selectedType :: ProjectType

datatype timestamp = serverTimestamp

record creation_fields =
  createdAt :: timestamp
  userId :: string
  userEmail :: string
  status :: string
  featured :: bool
  views :: nat
  likes :: nat

text \<open>
  \<open>projectData\<close>, the object handed to \<open>addDoc\<close> or \<open>updateDoc\<close>. A field whose
  value is \<open>undefined\<close> is \<open>None\<close>; the fields spread in for a new project only are
  \<open>pd_created\<close>.
\<close>

record ProjectData =
  pd_title :: string
  pd_description :: string
  pd_type :: ProjectType
  pd_media :: "MediaItem list"
  pd_liveLink :: "string option"
  pd_tags :: "string list"
  pd_updatedAt :: timestamp
  pd_created :: "creation_fields option"

text \<open>What the media host answers to one upload request.\<close>

datatype upload_outcome =
    fetch_rejected string
  | response_not_ok "string option"
  | response_ok string

text \<open>
  The environment of one submission: the role record, the media host's
  configuration (both variables set, or not), the answer to the \<open>n\<close>-th upload
  request, and the error message of the record write if it is rejected.
\<close>

record submit_env =
  role_result :: role_fetch
  cloudinary_configured :: bool
  upload_answer :: "nat \<Rightarrow> upload_outcome"
  write_rejects :: "string option"

datatype submit_effect =
    GetDoc_users string
  | ShowToast ToastType string
  | SetIsLoading bool
  | SetUploadProgress nat
  | Fetch_upload File MediaType
  | UpdateDoc string ProjectData
  | AddDoc ProjectData
  | OnFinish
  | Reset
  | SetSelectedFiles "File list"
  | ConsoleError

definition check_mark :: string where
  "check_mark = [CHR 0xE2, CHR 0x9C, CHR 0x93]"

definition maxSize :: "ProjectType \<Rightarrow> nat" where
  "maxSize t = (if t = motion then 50 * 1024 * 1024 else 5 * 1024 * 1024)"

definition resourceType :: "ProjectType \<Rightarrow> MediaType" where
  "resourceType t = (if t = motion then video else image)"

definition size_limit_message :: "File \<Rightarrow> string" where
  "size_limit_message f =
     ''File '' @ [CHR 0x22] @ file_name f @ [CHR 0x22] @ '' exceeds the size limit''"

text \<open>
  \<open>uploadToCloudinary\<close> (components/UploadForm.tsx, lines 113--147), for the \<open>n\<close>-th request of the
  submission: the effects, and the thrown message or the returned URL. The
  interval that advances the progress bar while the request is pending depends on
  time and is left out.
\<close>

definition uploadToCloudinary ::
    "submit_env \<Rightarrow> nat \<Rightarrow> File \<Rightarrow> MediaType \<Rightarrow> submit_effect list \<times> (string + string)" where
  "uploadToCloudinary env n file rt =
     (if \<not> cloudinary_configured env then
        ([], Inl ''Cloudinary configuration missing. Please check your environment variables.'')
      else case upload_answer env n of
        fetch_rejected msg \<Rightarrow>
          ([Fetch_upload file rt, SetUploadProgress 0], Inl msg)
      | response_not_ok msg \<Rightarrow>
          ([Fetch_upload file rt, SetUploadProgress 100, SetUploadProgress 0],
           Inl (case msg of Some (c # cs) \<Rightarrow> c # cs | _ \<Rightarrow> ''Upload to Cloudinary failed''))
      | response_ok secure_url \<Rightarrow>
          ([Fetch_upload file rt, SetUploadProgress 100], Inr secure_url))"

text \<open>
  The \<^verbatim>\<open>for (const file of selectedFiles)\<close> loop (lines 188--202): \<open>n\<close> counts the
  requests made so far, \<open>uploadedMedia\<close> is the array being filled.
\<close>

fun upload_loop ::
    "submit_env \<Rightarrow> ProjectType \<Rightarrow> nat \<Rightarrow> File list \<Rightarrow> MediaItem list
       \<Rightarrow> submit_effect list \<times> (string + MediaItem list)" where
  "upload_loop env t n [] uploadedMedia = ([], Inr uploadedMedia)"
| "upload_loop env t n (file # files) uploadedMedia =
     (if file_size file > maxSize t then ([], Inl (size_limit_message file))
      else case uploadToCloudinary env n file (resourceType t) of
        (effects, Inl msg) \<Rightarrow> (effects, Inl msg)
      | (effects, Inr u) \<Rightarrow>
          (case upload_loop env t (Suc n) files
                  (uploadedMedia @ [\<lparr>type = resourceType t, url = u\<rparr>]) of
             (effects', r) \<Rightarrow> (effects @ effects', r)))"

definition tagsArray :: "string option \<Rightarrow> string list" where
  "tagsArray t =
     (case t of
        Some (c # cs) \<Rightarrow> filter (\<lambda>tag. tag \<noteq> []) (map trim (split_comma (c # cs)))
      | _ \<Rightarrow> [])"

text \<open>The object literal of lines 215--241.\<close>

definition projectData ::
    "User \<Rightarrow> Project option \<Rightarrow> IFormInput \<Rightarrow> MediaItem list \<Rightarrow> ProjectData" where
  "projectData u initial data m =
     \<lparr>pd_title = trim (form_title data),
      pd_description = (case form_description data of None \<Rightarrow> [] | Some d \<Rightarrow> trim d),
      pd_type = form_type data,
      pd_media = m,
      pd_liveLink =
        (if form_type data = frontend then map_option trim (form_liveLink data) else None),
      pd_tags = tagsArray (form_tags data),
      pd_updatedAt = serverTimestamp,
      pd_created =
        (case initial of
           Some p \<Rightarrow> None
         | None \<Rightarrow>
             Some \<lparr>createdAt = serverTimestamp,
                   userId = uid u,
                   userEmail = (case email u of Some (c # cs) \<Rightarrow> c # cs | _ \<Rightarrow> ''unknown''),
                   status = ''published'',
                   featured = False,
                   views = 0,
                   likes = 0\<rparr>)\<rparr>"

text \<open>
  The second \<^verbatim>\<open>try\<close> block (lines 179--254): the effects, and the message of the
  error it throws, if it throws one.
\<close>

definition try_block ::
    "User \<Rightarrow> UploadFormProps \<Rightarrow> form_state \<Rightarrow> submit_env \<Rightarrow> IFormInput
       \<Rightarrow> submit_effect list \<times> string option" where
  "try_block u props fs env data =
     (let uploaded =
            (if length (selectedFiles fs) > 0 then
               (case upload_loop env (selectedType fs) 0 (selectedFiles fs) [] of
                  (effects, r) \<Rightarrow> (ShowToast warning ''Uploading media...'' # effects, r))
             else case initialData props of
               None \<Rightarrow> ([], Inl ''Please select at least one file'')
             | Some p \<Rightarrow> ([], Inr (case media p of Some m \<Rightarrow> m | None \<Rightarrow> [])))
      in case uploaded of
        (effects, Inl msg) \<Rightarrow> (effects, Some msg)
      | (effects, Inr m) \<Rightarrow>
        (case initialData props of
           Some p \<Rightarrow>
             (effects
              @ [ShowToast warning ''Updating project...'',
                 UpdateDoc (project_id p) (projectData u (Some p) data m)]
              @ (case write_rejects env of
                   Some msg \<Rightarrow> []
                 | None \<Rightarrow>
                     [ShowToast success (check_mark @ '' Project updated successfully!'')]
                     @ (if onFinish_given props then [OnFinish] else [])
                     @ [SetUploadProgress 0]),
              write_rejects env)
         | None \<Rightarrow>
             (effects
              @ [ShowToast warning ''Saving to database...'',
                 AddDoc (projectData u None data m)]
              @ (case write_rejects env of
                   Some msg \<Rightarrow> []
                 | None \<Rightarrow>
                     [ShowToast success (check_mark @ '' Project uploaded successfully!''),
                      Reset, SetSelectedFiles [], SetUploadProgress 0]),
              write_rejects env)))"

text \<open>\<open>onSubmit\<close> (components/UploadForm.tsx, lines 149--262).\<close>

definition onSubmit ::
    "UploadFormProps \<Rightarrow> form_state \<Rightarrow> submit_env \<Rightarrow> IFormInput \<Rightarrow> submit_effect list" where
  "onSubmit props fs env data =
     (case props_user props of
        None \<Rightarrow> [ShowToast error ''Authentication required. Please sign in again.'']
      | Some u \<Rightarrow>
          GetDoc_users (uid u) #
          (case role_result env of
             FetchFailed \<Rightarrow> [ConsoleError, ShowToast error ''Failed to verify admin status.'']
           | RecordAbsent \<Rightarrow>
               [ShowToast error ''User record not found. Please contact support.'']
           | RecordPresent role \<Rightarrow>
               if role \<noteq> Some ''admin'' then
                 [ShowToast error ''Admin privileges required for upload.'']
               else
                 [SetIsLoading True, SetUploadProgress 0]
                 @ (case try_block u props fs env data of
                      (effects, None) \<Rightarrow> effects
                    | (effects, Some msg) \<Rightarrow>
                        effects
                        @ [ConsoleError,
                           ShowToast error
                             (if msg \<noteq> [] then msg
                              else if initialData props \<noteq> None then ''Update failed''
                              else ''Upload failed''),
                           SetUploadProgress 0])
                 @ [SetIsLoading False]))"

text \<open>The mutating actions: an upload to the media host, a record create or update.\<close>

fun is_mutation :: "submit_effect \<Rightarrow> bool" where
  "is_mutation (Fetch_upload f rt) = True"
| "is_mutation (UpdateDoc i r) = True"
| "is_mutation (AddDoc r) = True"
| "is_mutation _ = False"

fun is_upload :: "submit_effect \<Rightarrow> bool" where
  "is_upload (Fetch_upload f rt) = True"
| "is_upload _ = False"

fun is_write :: "submit_effect \<Rightarrow> bool" where
  "is_write (UpdateDoc i r) = True"
| "is_write (AddDoc r) = True"
| "is_write _ = False"


fun is_error_toast :: "submit_effect \<Rightarrow> bool" where
  "is_error_toast (ShowToast t m) = (t = error)"
| "is_error_toast _ = False"

text \<open>The media host is configured and answers the first \<open>k\<close> upload requests with a URL.\<close>

definition uploads_succeed :: "submit_env \<Rightarrow> nat \<Rightarrow> bool" where
  "uploads_succeed env k =
     (cloudinary_configured env \<and> (\<forall>n < k. \<exists>u. upload_answer env n = response_ok u))"

section \<open>Document store\<close>






section \<open>Concrete inputs\<close>

text \<open>
  A legacy record, two records in the multi-file format (three items, two items),
  and a record with no media at all.
\<close>

definition legacy_motion_project :: Project where
  "legacy_motion_project =
     \<lparr>project_id = ''p1'', title = ''Showreel'', description = [],
      project_type = motion, media = None, mediaUrl = Some ''https://cdn/reel.mp4'',
      liveLink = None, tags = []\<rparr>"

definition gallery_project :: Project where
  "gallery_project =
     \<lparr>project_id = ''p2'', title = ''Posters'', description = [],
      project_type = graphics,
      media = Some [\<lparr>type = image, url = ''a.png''\<rparr>, \<lparr>type = image, url = ''b.png''\<rparr>,
                    \<lparr>type = image, url = ''c.png''\<rparr>],
      mediaUrl = Some ''old.png'', liveLink = None, tags = []\<rparr>"

definition pair_project :: Project where
  "pair_project =
     \<lparr>project_id = ''p6'', title = ''Logos'', description = [],
      project_type = graphics,
      media = Some [\<lparr>type = image, url = ''d.png''\<rparr>, \<lparr>type = image, url = ''e.png''\<rparr>],
      mediaUrl = None, liveLink = None, tags = []\<rparr>"

definition empty_project :: Project where
  "empty_project =
     \<lparr>project_id = ''p3'', title = ''Draft'', description = [],
      project_type = frontend, media = Some [], mediaUrl = None,
      liveLink = None, tags = []\<rparr>"

text \<open>An administrator, and deliveries of the identity stream to a mounted view.\<close>

definition admin_user :: User where
  "admin_user = \<lparr>uid = ''uid-1'', email = Some ''owner@example.com''\<rparr>"

definition admin_record_delivery :: delivery where
  "admin_record_delivery =
     \<lparr>currentUser = Some admin_user, mounted_at_entry = True,
      getDoc_result = RecordPresent (Some ''admin''), mounted_after_getDoc = True,
      signOut_rejects = False, mounted_in_catch = True\<rparr>"


text \<open>Submissions: environments, props, form values and files.\<close>

definition admin_env :: submit_env where
  "admin_env =
     \<lparr>role_result = RecordPresent (Some ''admin''), cloudinary_configured = True,
      upload_answer = (\<lambda>n. response_ok ''https://cdn/file''), write_rejects = None\<rparr>"

definition editor_env :: submit_env where
  "editor_env =
     \<lparr>role_result = RecordPresent (Some ''editor''), cloudinary_configured = True,
      upload_answer = (\<lambda>n. response_ok ''https://cdn/file''), write_rejects = None\<rparr>"

definition new_project_props :: UploadFormProps where
  "new_project_props = \<lparr>props_user = Some admin_user, initialData = None, onFinish_given = False\<rparr>"

definition poster_form :: IFormInput where
  "poster_form =
     \<lparr>form_title = ''Posters'', form_description = Some ''Print work'', form_type = graphics,
      form_liveLink = Some [], form_tags = Some ''print, brand''\<rparr>"

definition small_file :: File where
  "small_file = \<lparr>file_name = ''a.png'', file_size = 1000\<rparr>"

definition big_file :: File where
  "big_file = \<lparr>file_name = ''huge.png'', file_size = 5242881\<rparr>"

definition three_files :: form_state where
  "three_files = \<lparr>selectedFiles = [small_file, big_file, small_file], selectedType = graphics\<rparr>"








section \<open>Media normalization: the claims\<close>

lemma media_is_nonempty_array_iff:
  "media_is_nonempty_array project \<longleftrightarrow> (\<exists>m ms. media project = Some (m # ms))"
  by (cases "media project") (auto simp: media_is_nonempty_array_def neq_Nil_conv)

lemma truthy_iff: "truthy s \<longleftrightarrow> (\<exists>c cs. s = Some (c # cs))"
  by (cases s) (auto simp: truthy_def neq_Nil_conv)

text \<open>
  Claim C1. For every project, the normalized media sequence of the admin preview is:
  the project's \<open>media\<close> array itself when that array is non-empty; otherwise, when
  the legacy \<open>mediaUrl\<close> is set (a non-empty string, which is what the source's
  truthiness test accepts), the one-element sequence whose item has that URL and
  whose \<open>type\<close> is \<open>video\<close> exactly when the project's type is \<open>motion\<close>, and
  \<open>image\<close> otherwise; and the empty sequence in every remaining case.
\<close>

theorem normalized_media_sequence:
  "(\<forall>items. media project = Some items \<and> items \<noteq> [] \<longrightarrow>
       ProjectPreview_mediaItems project = items)
   \<and> (\<forall>u. (media project = None \<or> media project = Some [])
            \<and> mediaUrl project = Some u \<and> u \<noteq> [] \<longrightarrow>
       ProjectPreview_mediaItems project =
         [\<lparr>type = (if project_type project = motion then video else image), url = u\<rparr>]
       \<and> (type (hd (ProjectPreview_mediaItems project)) = video
            \<longleftrightarrow> project_type project = motion))
   \<and> ((media project = None \<or> media project = Some []) \<and>
        (mediaUrl project = None \<or> mediaUrl project = Some []) \<longrightarrow>
       ProjectPreview_mediaItems project = [])"
  by (auto simp: ProjectPreview_mediaItems_def media_is_nonempty_array_def truthy_def
      legacy_item_def)

theorem normalized_media_sequence_witness:
  "ProjectPreview_mediaItems gallery_project =
     [\<lparr>type = image, url = ''a.png''\<rparr>, \<lparr>type = image, url = ''b.png''\<rparr>,
      \<lparr>type = image, url = ''c.png''\<rparr>]
   \<and> ProjectPreview_mediaItems legacy_motion_project =
     [\<lparr>type = video, url = ''https://cdn/reel.mp4''\<rparr>]
   \<and> ProjectPreview_mediaItems empty_project = []"
  using normalized_media_sequence [of gallery_project]
    normalized_media_sequence [of legacy_motion_project]
    normalized_media_sequence [of empty_project]
  by (simp add: gallery_project_def legacy_motion_project_def empty_project_def)

text \<open>
  Claim C2. Every place that renders a project's media computes the same
  normalization: the public preview modal yields the same sequence as the admin
  preview modal, and the card helpers (the admin card's \<open>firstMedia\<close>, the public
  \<open>getFirstMedia\<close> and the public grid's inline expression) return exactly the
  first element of that sequence, \<open>null\<close> when it is empty.
\<close>

theorem normalization_agrees_everywhere:
  "ProjectPreviewModal_mediaItems project = ProjectPreview_mediaItems project
   \<and> ProjectCard_firstMedia project = first_or_null (ProjectPreview_mediaItems project)
   \<and> getFirstMedia project = first_or_null (ProjectPreview_mediaItems project)
   \<and> PortfolioPage_firstMedia project = first_or_null (ProjectPreview_mediaItems project)"
proof -
  consider (arr) m ms where "media project = Some (m # ms)"
    | (legacy) c cs where "\<not> media_is_nonempty_array project" "mediaUrl project = Some (c # cs)"
    | (none) "\<not> media_is_nonempty_array project" "\<not> truthy (mediaUrl project)"
    using media_is_nonempty_array_iff truthy_iff by blast
  then show ?thesis
  proof cases
    case arr
    then show ?thesis
      by (simp add: ProjectPreviewModal_mediaItems_def ProjectPreview_mediaItems_def
          ProjectCard_firstMedia_def getFirstMedia_def PortfolioPage_firstMedia_def
          first_or_null_def media_is_nonempty_array_def)
  next
    case legacy
    then show ?thesis
      by (auto simp: ProjectPreviewModal_mediaItems_def ProjectPreview_mediaItems_def
          ProjectCard_firstMedia_def getFirstMedia_def PortfolioPage_firstMedia_def
          first_or_null_def media_is_nonempty_array_def truthy_def
          split: option.splits list.splits)
  next
    case none
    then show ?thesis
      by (auto simp: ProjectPreviewModal_mediaItems_def ProjectPreview_mediaItems_def
          ProjectCard_firstMedia_def getFirstMedia_def PortfolioPage_firstMedia_def
          first_or_null_def media_is_nonempty_array_def truthy_def
          split: option.splits list.splits)
  qed
qed

section \<open>Gallery navigation: the claims\<close>

lemma smod_nonneg: "0 \<le> a \<Longrightarrow> 0 < b \<Longrightarrow> (a::int) smod b = a mod b"
  by (simp add: signed_modulo_int_def sgn_if)

lemma goToNext_in_range:
  assumes "0 \<le> i" "i < int (length xs)"
  shows "goToNext xs (Num i) = Num ((i + 1) mod int (length xs))"
  using assms by (auto simp add: goToNext_def array_length_def smod_nonneg)

lemma goToPrevious_in_range:
  assumes "0 \<le> i" "i < int (length xs)"
  shows "goToPrevious xs (Num i) = Num ((i - 1) mod int (length xs))"
  using assms by (auto simp add: goToPrevious_def array_length_def smod_nonneg)

lemma goToNext_funpow:
  assumes "0 \<le> i" "i < int (length xs)"
  shows "(goToNext xs ^^ k) (Num i) = Num ((i + int k) mod int (length xs))"
proof (induction k)
  case 0
  from assms show ?case by simp
next
  case (Suc k)
  have pos: "0 < int (length xs)" using assms by linarith
  have r: "0 \<le> (i + int k) mod int (length xs)"
    "(i + int k) mod int (length xs) < int (length xs)"
    using pos by simp_all
  have "((i + int k) mod int (length xs) + 1) mod int (length xs)
          = (i + int k + 1) mod int (length xs)"
    by (simp add: mod_add_left_eq)
  then show ?case
    using Suc goToNext_in_range [OF r]
    by (simp add: algebra_simps)
qed

lemma goToPrevious_funpow:
  assumes "0 \<le> i" "i < int (length xs)"
  shows "(goToPrevious xs ^^ k) (Num i) = Num ((i - int k) mod int (length xs))"
proof (induction k)
  case 0
  from assms show ?case by simp
next
  case (Suc k)
  have pos: "0 < int (length xs)" using assms by linarith
  have r: "0 \<le> (i - int k) mod int (length xs)"
    "(i - int k) mod int (length xs) < int (length xs)"
    using pos by simp_all
  have "((i - int k) mod int (length xs) - 1) mod int (length xs)
          = (i - int k - 1) mod int (length xs)"
    by (simp add: mod_diff_left_eq)
  then show ?case
    using Suc goToPrevious_in_range [OF r]
    by (simp add: algebra_simps)
qed

lemma viewer_run_ArrowRight:
  "viewer_run xs idx (replicate k (KeyDown ArrowRight)) =
     Some (if hasMultipleMedia xs then (goToNext xs ^^ k) idx else idx)"
  by (induction k arbitrary: idx)
     (simp_all add: viewer_step_def handleKeyPress_def funpow_swap1)

lemma viewer_run_ArrowLeft:
  "viewer_run xs idx (replicate k (KeyDown ArrowLeft)) =
     Some (if hasMultipleMedia xs then (goToPrevious xs ^^ k) idx else idx)"
  by (induction k arbitrary: idx)
     (simp_all add: viewer_step_def handleKeyPress_def funpow_swap1)

text \<open>
  Claim C3. For a media sequence of length \<open>L \<ge> 1\<close> and a starting index in
  \<open>[0, L)\<close>, \<open>L\<close> applications of \<open>next()\<close> bring the index back to where it
  started, and so do \<open>L\<close> applications of \<open>previous()\<close>: for the updaters
  themselves, and for the operations as the viewer offers them (the arrow keys).
\<close>

theorem gallery_cycle_closure:
  assumes "0 \<le> i" and "i < int (length mediaItems)"
  shows "(goToNext mediaItems ^^ length mediaItems) (Num i) = Num i
     \<and> (goToPrevious mediaItems ^^ length mediaItems) (Num i) = Num i
     \<and> viewer_run mediaItems (Num i) (replicate (length mediaItems) (KeyDown ArrowRight))
         = Some (Num i)
     \<and> viewer_run mediaItems (Num i) (replicate (length mediaItems) (KeyDown ArrowLeft))
         = Some (Num i)"
proof -
  have n: "(goToNext mediaItems ^^ length mediaItems) (Num i) = Num i"
    using assms by (simp add: goToNext_funpow)
  have p: "(goToPrevious mediaItems ^^ length mediaItems) (Num i) = Num i"
    using assms by (simp add: goToPrevious_funpow)
  show ?thesis
    using n p by (simp add: viewer_run_ArrowRight viewer_run_ArrowLeft)
qed

theorem gallery_cycle_closure_witness:
  "(goToNext (ProjectPreview_mediaItems gallery_project) ^^ 3) (Num 1) = Num 1
   \<and> (goToPrevious (ProjectPreview_mediaItems gallery_project) ^^ 3) (Num 1) = Num 1
   \<and> viewer_run (ProjectPreview_mediaItems gallery_project) (Num 1)
        [KeyDown ArrowRight, KeyDown ArrowRight, KeyDown ArrowRight] = Some (Num 1)
   \<and> viewer_run (ProjectPreview_mediaItems gallery_project) (Num 1)
        [KeyDown ArrowLeft, KeyDown ArrowLeft, KeyDown ArrowLeft] = Some (Num 1)"
proof -
  have len: "length (ProjectPreview_mediaItems gallery_project) = 3"
    by (simp add: ProjectPreview_mediaItems_def gallery_project_def media_is_nonempty_array_def)
  have r: "replicate 3 x = [x, x, x]" for x :: event
    by (simp add: numeral_3_eq_3)
  show ?thesis
    using gallery_cycle_closure [of 1 "ProjectPreview_mediaItems gallery_project"]
    by (simp add: len r)
qed

lemma index_in_range_Num: "index_in_range xs idx \<longleftrightarrow> (\<exists>i. idx = Num i \<and> 0 \<le> i \<and> i < int (length xs))"
  by (cases idx) (simp_all add: index_in_range_def)

lemma goToNext_keeps_range:
  assumes "index_in_range xs idx"
  shows "index_in_range xs (goToNext xs idx)"
proof -
  from assms obtain i where i: "idx = Num i" "0 \<le> i" "i < int (length xs)"
    by (auto simp: index_in_range_Num)
  then have "0 < int (length xs)" by linarith
  then show ?thesis
    using i goToNext_in_range [of i xs] by (simp add: index_in_range_def)
qed

lemma goToPrevious_keeps_range:
  assumes "index_in_range xs idx"
  shows "index_in_range xs (goToPrevious xs idx)"
proof -
  from assms obtain i where i: "idx = Num i" "0 \<le> i" "i < int (length xs)"
    by (auto simp: index_in_range_Num)
  then have "0 < int (length xs)" by linarith
  then show ?thesis
    using i goToPrevious_in_range [of i xs] by (simp add: index_in_range_def)
qed

lemma run_call_keeps_range:
  assumes "index_in_range xs idx" and "handler xs idx ev = Some c" and "run_call xs idx c = Some idx'"
  shows "index_in_range xs idx'"
proof (cases c)
  case call_goToNext
  with assms show ?thesis using goToNext_keeps_range by auto
next
  case call_goToPrevious
  with assms show ?thesis using goToPrevious_keeps_range by auto
next
  case call_onClose
  with assms show ?thesis by simp
next
  case (call_setCurrentMediaIndex i)
  with assms(2) have "thumbnail_rendered xs i"
    by (cases ev) (auto simp: handleKeyPress_def split: if_splits)
  with assms(3) call_setCurrentMediaIndex show ?thesis
    by (auto simp: thumbnail_rendered_def index_in_range_def)
qed

lemma viewer_step_keeps_range:
  assumes "index_in_range xs idx" and "viewer_step xs idx ev = Some idx'"
  shows "index_in_range xs idx'"
proof (cases "handler xs idx ev")
  case None
  with assms show ?thesis by (simp add: viewer_step_def)
next
  case (Some c)
  with assms show ?thesis
    using run_call_keeps_range [of xs idx ev c idx'] by (simp add: viewer_step_def)
qed

lemma viewer_run_keeps_range:
  "index_in_range xs idx \<Longrightarrow> viewer_run xs idx evs = Some idx' \<Longrightarrow> index_in_range xs idx'"
proof (induction evs arbitrary: idx)
  case Nil
  then show ?case by simp
next
  case (Cons ev evs)
  then show ?case
    by (auto split: option.splits dest: viewer_step_keeps_range)
qed

lemma short_gallery_no_handler:
  assumes "length xs \<le> 1"
  shows "handler xs idx (KeyDown ArrowRight) = None" "handler xs idx (KeyDown ArrowLeft) = None"
    "handler xs idx ClickNext = None" "handler xs idx ClickPrevious = None"
    "handler xs idx (ClickThumbnail i) = None"
  using assms
  by (simp_all add: handleKeyPress_def hasMultipleMedia_def arrows_rendered_def thumbnail_rendered_def)

lemma short_gallery_step:
  assumes "length xs \<le> 1" and "viewer_step xs idx ev = Some idx'"
  shows "idx' = idx"
proof (cases ev)
  case (KeyDown k)
  with assms show ?thesis
    by (cases k) (auto simp: viewer_step_def handleKeyPress_def hasMultipleMedia_def)
qed (use assms in \<open>auto simp: viewer_step_def hasMultipleMedia_def arrows_rendered_def thumbnail_rendered_def\<close>)

lemma short_gallery_run:
  assumes "length xs \<le> 1"
  shows "viewer_run xs idx evs = Some idx' \<Longrightarrow> idx' = idx"
proof (induction evs arbitrary: idx)
  case Nil
  then show ?case by simp
next
  case (Cons ev evs)
  from Cons.prems obtain mid where mid: "viewer_step xs idx ev = Some mid"
    and rest: "viewer_run xs mid evs = Some idx'"
    by (auto split: option.splits)
  from short_gallery_step [OF assms mid] have "mid = idx" .
  with Cons.IH rest show ?case by simp
qed

lemma handler_navigation_needs_multiple:
  assumes "handler xs idx ev = Some c" and "c = call_goToNext \<or> c = call_goToPrevious"
  shows "hasMultipleMedia xs"
  using assms
  by (cases ev) (auto simp: handleKeyPress_def arrows_rendered_def split: if_splits)

lemma viewer_step_never_NaN:
  assumes "viewer_step xs (Num i) ev = Some idx'"
  shows "idx' \<noteq> NaN"
proof (cases "handler xs (Num i) ev")
  case None
  with assms show ?thesis by (auto simp: viewer_step_def)
next
  case (Some c)
  show ?thesis
  proof (cases c)
    case call_goToNext
    with Some have "hasMultipleMedia xs" using handler_navigation_needs_multiple by blast
    with assms Some call_goToNext show ?thesis
      by (auto simp: viewer_step_def goToNext_def array_length_def hasMultipleMedia_def
          split: if_splits)
  next
    case call_goToPrevious
    with Some have "hasMultipleMedia xs" using handler_navigation_needs_multiple by blast
    with assms Some call_goToPrevious show ?thesis
      by (auto simp: viewer_step_def goToPrevious_def array_length_def hasMultipleMedia_def
          split: if_splits)
  next
    case call_onClose
    with assms Some show ?thesis by (simp add: viewer_step_def)
  next
    case (call_setCurrentMediaIndex n)
    with assms Some show ?thesis by (auto simp: viewer_step_def)
  qed
qed

lemma viewer_run_never_NaN: "viewer_run xs (Num i) evs \<noteq> Some NaN"
proof (induction evs arbitrary: i)
  case Nil
  then show ?case by simp
next
  case (Cons ev evs)
  show ?case
  proof (cases "viewer_step xs (Num i) ev")
    case None
    then show ?thesis by simp
  next
    case (Some mid)
    with viewer_step_never_NaN obtain j where "mid = Num j" by (cases mid) auto
    with Some Cons.IH show ?thesis by simp
  qed
qed

text \<open>
  Claim C4. For a media sequence of length 0 or 1, \<open>next()\<close> and \<open>previous()\<close> are
  no-ops and cannot throw: the arrow keys find no handler to call (the guard
  \<open>hasMultipleMedia\<close> fails before \<open>goToNext\<close> or \<open>goToPrevious\<close>, the only
  places that compute a remainder by the length, are reached), the arrow buttons
  and the position indicator are not rendered, every run of events leaves the
  index where it was, and the index never becomes \<open>NaN\<close>, the value of a
  remainder by zero.
\<close>

theorem short_gallery_navigation_is_noop:
  assumes "length mediaItems \<le> 1"
  shows "handler mediaItems idx (KeyDown ArrowRight) = None
     \<and> handler mediaItems idx (KeyDown ArrowLeft) = None
     \<and> handler mediaItems idx ClickNext = None
     \<and> handler mediaItems idx ClickPrevious = None
     \<and> viewer_step mediaItems idx (KeyDown ArrowRight) = Some idx
     \<and> viewer_step mediaItems idx (KeyDown ArrowLeft) = Some idx
     \<and> viewer_step mediaItems idx ClickNext = Some idx
     \<and> viewer_step mediaItems idx ClickPrevious = Some idx
     \<and> \<not> arrows_rendered mediaItems idx
     \<and> position_indicator mediaItems idx = None
     \<and> (\<forall>evs idx'. viewer_run mediaItems idx evs = Some idx' \<longrightarrow> idx' = idx)
     \<and> (\<forall>evs. viewer_run mediaItems initial_currentMediaIndex evs \<noteq> Some NaN)"
proof -
  note h = short_gallery_no_handler [OF assms, of idx]
  have steps: "viewer_step mediaItems idx (KeyDown ArrowRight) = Some idx"
    "viewer_step mediaItems idx (KeyDown ArrowLeft) = Some idx"
    "viewer_step mediaItems idx ClickNext = Some idx"
    "viewer_step mediaItems idx ClickPrevious = Some idx"
    unfolding viewer_step_def by (simp_all only: h option.case)
  have rendered: "\<not> arrows_rendered mediaItems idx" "position_indicator mediaItems idx = None"
    using assms by (simp_all add: arrows_rendered_def position_indicator_def hasMultipleMedia_def)
  have run: "\<forall>evs idx'. viewer_run mediaItems idx evs = Some idx' \<longrightarrow> idx' = idx"
    using short_gallery_run [OF assms] by blast
  have nan: "\<forall>evs. viewer_run mediaItems initial_currentMediaIndex evs \<noteq> Some NaN"
    by (simp add: initial_currentMediaIndex_def viewer_run_never_NaN)
  from h(1-4) steps rendered run nan show ?thesis by blast
qed

theorem short_gallery_navigation_is_noop_witness:
  "viewer_step [] (Num 0) (KeyDown ArrowRight) = Some (Num 0)
   \<and> viewer_step [] (Num 0) (KeyDown ArrowLeft) = Some (Num 0)
   \<and> viewer_step (ProjectPreview_mediaItems legacy_motion_project) (Num 0) (KeyDown ArrowRight)
        = Some (Num 0)
   \<and> viewer_step (ProjectPreview_mediaItems legacy_motion_project) (Num 0) (KeyDown ArrowLeft)
        = Some (Num 0)"
proof -
  have one: "length (ProjectPreview_mediaItems legacy_motion_project) = 1"
    by (simp add: ProjectPreview_mediaItems_def legacy_motion_project_def
        media_is_nonempty_array_def truthy_def)
  show ?thesis
    using short_gallery_navigation_is_noop [of "[]" "Num 0"]
      short_gallery_navigation_is_noop [of "ProjectPreview_mediaItems legacy_motion_project" "Num 0"]
    by (simp add: one)
qed

text \<open>
  The viewer opened on a project whose normalized media sequence is empty holds the
  index 0, and \<open>[0, 0)\<close> has no element; nothing is rendered at it.
\<close>

lemma empty_sequence_index:
  "\<not> index_in_range (ProjectPreview_mediaItems empty_project) initial_currentMediaIndex"
  by (simp add: index_in_range_def initial_currentMediaIndex_def ProjectPreview_mediaItems_def
      empty_project_def media_is_nonempty_array_def truthy_def)

text \<open>
  What holds of the index by construction: it is 0 each time the viewer is mounted
  (on the admin page when a project is previewed while the viewer is closed, on
  the public page at every selection); for a sequence of length \<open>L \<ge> 1\<close> every key
  press and click the viewer offers keeps it an integer in \<open>[0, L)\<close>; for \<open>L = 0\<close>
  it stays 0 and no media element is shown.
\<close>

lemma index_starts_at_zero_and_stays_in_range:
  "initial_currentMediaIndex = Num 0
   \<and> AdminPage_setPreviewProject (Some project) None = Some (project, Num 0)
   \<and> AdminPage_setPreviewProject (Some project) (AdminPage_setPreviewProject None cur)
        = Some (project, Num 0)
   \<and> PortfolioPage_setSelectedProject (Some project) cur = Some (project, Num 0)
   \<and> (mediaItems \<noteq> [] \<longrightarrow> index_in_range mediaItems initial_currentMediaIndex)
   \<and> (\<forall>idx evs idx'. index_in_range mediaItems idx \<and> viewer_run mediaItems idx evs = Some idx'
         \<longrightarrow> index_in_range mediaItems idx')
   \<and> (\<forall>evs idx'. mediaItems = [] \<and> viewer_run mediaItems initial_currentMediaIndex evs = Some idx'
         \<longrightarrow> idx' = Num 0 \<and> currentMedia mediaItems idx' = None)"
proof -
  have a: "mediaItems \<noteq> [] \<longrightarrow> index_in_range mediaItems initial_currentMediaIndex"
    by (simp add: index_in_range_def initial_currentMediaIndex_def)
  have b: "\<forall>idx evs idx'. index_in_range mediaItems idx \<and> viewer_run mediaItems idx evs = Some idx'
         \<longrightarrow> index_in_range mediaItems idx'"
    using viewer_run_keeps_range by blast
  have c: "\<forall>evs idx'. mediaItems = [] \<and> viewer_run mediaItems initial_currentMediaIndex evs = Some idx'
         \<longrightarrow> idx' = Num 0 \<and> currentMedia mediaItems idx' = None"
  proof (intro allI impI, elim conjE)
    fix evs idx'
    assume e: "mediaItems = []" and r: "viewer_run mediaItems initial_currentMediaIndex evs = Some idx'"
    from e have "length mediaItems \<le> 1" by simp
    from short_gallery_run [OF this r] e
    show "idx' = Num 0 \<and> currentMedia mediaItems idx' = None"
      by (simp add: initial_currentMediaIndex_def currentMedia_def)
  qed
  have d: "initial_currentMediaIndex = Num 0
     \<and> AdminPage_setPreviewProject (Some project) None = Some (project, Num 0)
     \<and> AdminPage_setPreviewProject (Some project) (AdminPage_setPreviewProject None cur)
        = Some (project, Num 0)
     \<and> PortfolioPage_setSelectedProject (Some project) cur = Some (project, Num 0)"
    by (simp add: initial_currentMediaIndex_def AdminPage_setPreviewProject_def
        PortfolioPage_setSelectedProject_def)
  from a b c d show ?thesis by blast
qed

lemma index_starts_at_zero_and_stays_in_range_example:
  "index_in_range (ProjectPreview_mediaItems gallery_project) initial_currentMediaIndex
   \<and> viewer_run (ProjectPreview_mediaItems gallery_project) initial_currentMediaIndex
        [KeyDown ArrowLeft, ClickThumbnail 1, ClickNext] = Some (Num 2)
   \<and> index_in_range (ProjectPreview_mediaItems gallery_project) (Num 2)
   \<and> viewer_run (ProjectPreview_mediaItems empty_project) initial_currentMediaIndex
        [KeyDown ArrowRight, ClickNext] = Some (Num 0)"
proof -
  have g: "ProjectPreview_mediaItems gallery_project =
      [\<lparr>type = image, url = ''a.png''\<rparr>, \<lparr>type = image, url = ''b.png''\<rparr>,
       \<lparr>type = image, url = ''c.png''\<rparr>]"
    by (simp add: ProjectPreview_mediaItems_def gallery_project_def media_is_nonempty_array_def)
  have e: "ProjectPreview_mediaItems empty_project = []"
    by (simp add: ProjectPreview_mediaItems_def empty_project_def media_is_nonempty_array_def
        truthy_def)
  have run: "viewer_run (ProjectPreview_mediaItems gallery_project) initial_currentMediaIndex
        [KeyDown ArrowLeft, ClickThumbnail 1, ClickNext] = Some (Num 2)"
    by (simp add: g initial_currentMediaIndex_def viewer_step_def handleKeyPress_def
        hasMultipleMedia_def goToPrevious_def goToNext_def array_length_def
        thumbnail_rendered_def arrows_rendered_def currentMedia_def signed_modulo_int_def)
  have run0: "viewer_run (ProjectPreview_mediaItems empty_project) initial_currentMediaIndex
        [KeyDown ArrowRight, ClickNext] = Some (Num 0)"
    by (simp add: e initial_currentMediaIndex_def viewer_step_def handleKeyPress_def
        hasMultipleMedia_def arrows_rendered_def)
  note t = index_starts_at_zero_and_stays_in_range
      [of gallery_project None "ProjectPreview_mediaItems gallery_project"]
  have ne: "ProjectPreview_mediaItems gallery_project \<noteq> []"
    by (simp add: g)
  from t ne have i0: "index_in_range (ProjectPreview_mediaItems gallery_project)
      initial_currentMediaIndex"
    by blast
  from t i0 run have i2: "index_in_range (ProjectPreview_mediaItems gallery_project) (Num 2)"
    by blast
  from i0 run i2 run0 show ?thesis by blast
qed

lemma AdminPage_direct_switch_keeps_index:
  "AdminPage_setPreviewProject (Some q) (Some (p, idx)) = Some (q, idx)"
  by (simp add: AdminPage_setPreviewProject_def)

text \<open>
  Claim C9. The viewer's index is always an integer in \<open>[0, length)\<close> of the
  normalized media sequence and starts at 0 whenever a new project is presented;
  it is not carried from one project to the next. The admin page does not keep
  this. Its viewer is rendered without a \<open>key\<close> and never resets its state, so
  a preview requested while the viewer is open (the cards' buttons stay reachable
  by keyboard under the overlay) changes the project and keeps the index: opened
  on a project with three items and moved to the last one, index 2, then switched
  to a project with two items, the viewer holds index 2 of 2 items, shows no media
  and the position "3 / 2". The public page's viewer, the same code, starts the
  second project at 0.
\<close>

theorem admin_direct_switch_leaves_index_out_of_range:
  "AdminPage_setPreviewProject (Some gallery_project) None = Some (gallery_project, Num 0)
   \<and> viewer_step (ProjectPreview_mediaItems gallery_project) (Num 0) (KeyDown ArrowLeft)
        = Some (Num 2)
   \<and> AdminPage_setPreviewProject (Some pair_project) (Some (gallery_project, Num 2))
        = Some (pair_project, Num 2)
   \<and> length (ProjectPreview_mediaItems pair_project) = 2
   \<and> \<not> index_in_range (ProjectPreview_mediaItems pair_project) (Num 2)
   \<and> currentMedia (ProjectPreview_mediaItems pair_project) (Num 2) = None
   \<and> position_indicator (ProjectPreview_mediaItems pair_project) (Num 2) = Some (Num 3, Num 2)
   \<and> PortfolioPage_setSelectedProject (Some pair_project) (Some (gallery_project, Num 2))
        = Some (pair_project, Num 0)"
proof -
  have g: "ProjectPreview_mediaItems gallery_project =
      [\<lparr>type = image, url = ''a.png''\<rparr>, \<lparr>type = image, url = ''b.png''\<rparr>,
       \<lparr>type = image, url = ''c.png''\<rparr>]"
    by (simp add: ProjectPreview_mediaItems_def gallery_project_def media_is_nonempty_array_def)
  have p: "ProjectPreview_mediaItems pair_project =
      [\<lparr>type = image, url = ''d.png''\<rparr>, \<lparr>type = image, url = ''e.png''\<rparr>]"
    by (simp add: ProjectPreview_mediaItems_def pair_project_def media_is_nonempty_array_def)
  have opened: "AdminPage_setPreviewProject (Some gallery_project) None
      = Some (gallery_project, Num 0)"
    by (simp add: AdminPage_setPreviewProject_def initial_currentMediaIndex_def)
  have moved: "viewer_step (ProjectPreview_mediaItems gallery_project) (Num 0) (KeyDown ArrowLeft)
      = Some (Num 2)"
    by (simp add: g viewer_step_def handleKeyPress_def hasMultipleMedia_def goToPrevious_def
        array_length_def signed_modulo_int_def)
  have switched: "AdminPage_setPreviewProject (Some pair_project) (Some (gallery_project, Num 2))
      = Some (pair_project, Num 2)"
    by (simp add: AdminPage_setPreviewProject_def)
  have len: "length (ProjectPreview_mediaItems pair_project) = 2"
    by (simp add: p)
  have out: "\<not> index_in_range (ProjectPreview_mediaItems pair_project) (Num 2)"
    by (simp add: p index_in_range_def)
  have blank: "currentMedia (ProjectPreview_mediaItems pair_project) (Num 2) = None"
    by (simp add: p currentMedia_def)
  have pos: "position_indicator (ProjectPreview_mediaItems pair_project) (Num 2)
      = Some (Num 3, Num 2)"
    by (simp add: p position_indicator_def hasMultipleMedia_def array_length_def)
  have sibling: "PortfolioPage_setSelectedProject (Some pair_project) (Some (gallery_project, Num 2))
      = Some (pair_project, Num 0)"
    by (simp add: PortfolioPage_setSelectedProject_def initial_currentMediaIndex_def)
  from opened moved switched len out blank pos sibling show ?thesis by (intro conjI)
qed

section \<open>Session gate: the claims\<close>

lemma admin_callback:
  assumes "admin_delivery d"
  shows "\<exists>u. auth_callback w d =
           [setIsAdmin True, setUser (Some u)]
           @ (if \<not> w then [access_granted, setHasShownWelcome True] else [])
           @ [setCheckingAuth False]"
  using assms by (auto simp: admin_delivery_def auth_callback_def)

lemma deliver_admin:
  assumes "admin_delivery d"
  shows "count_list (log (commit (deliver s d))) access_granted
           = count_list (log s) access_granted + (if captured s then 0 else 1)"
    and "captured (commit (deliver s d)) = (if captured s then hasShownWelcome (state s) else True)"
proof -
  from admin_callback [OF assms, of "captured s"] obtain u where
    cb: "auth_callback (captured s) d =
           [setIsAdmin True, setUser (Some u)]
           @ (if \<not> captured s then [access_granted, setHasShownWelcome True] else [])
           @ [setCheckingAuth False]" by blast
  show "count_list (log (commit (deliver s d))) access_granted
           = count_list (log s) access_granted + (if captured s then 0 else 1)"
    by (simp add: commit_def deliver_def cb Let_def access_granted_def)
  show "captured (commit (deliver s d)) = (if captured s then hasShownWelcome (state s) else True)"
    by (simp add: commit_def deliver_def cb Let_def)
qed

lemma session_run_admin:
  assumes "\<forall>d \<in> set ds. admin_delivery d" and "captured s \<longrightarrow> hasShownWelcome (state s)"
  shows "count_list (log (session_run s ds)) access_granted
           = count_list (log s) access_granted + (if captured s \<or> ds = [] then 0 else 1)"
  using assms
proof (induction ds arbitrary: s)
  case Nil
  then show ?case by simp
next
  case (Cons d ds)
  then have d: "admin_delivery d" and rest: "\<forall>d \<in> set ds. admin_delivery d" by simp_all
  let ?s' = "commit (deliver s d)"
  have c: "captured ?s'" using deliver_admin(2) [OF d, of s] Cons.prems(2) by (simp split: if_splits)
  have inv: "captured ?s' \<longrightarrow> hasShownWelcome (state ?s')" by (simp add: commit_def)
  from Cons.IH [OF rest inv] c deliver_admin(1) [OF d, of s]
  show ?case by simp
qed

text \<open>
  Claim C6. Within one mounted admin session, however many times the role record
  with role \<open>admin\<close> is delivered (at least once; twice when the subscription is
  renewed and the provider replays the identity), the "access granted"
  notification is emitted exactly once, and it is the first delivery that emits
  it. Between two deliveries React has committed the state, so the renewed
  subscription reads the updated \<open>hasShownWelcome\<close>.
\<close>

theorem access_granted_exactly_once:
  assumes "ds \<noteq> []" and "\<forall>d \<in> set ds. admin_delivery d"
  shows "count_list (log (session_run mount_session ds)) access_granted = 1
     \<and> count_list (log (deliver mount_session (hd ds))) access_granted = 1"
proof -
  have m: "captured mount_session = False" "log mount_session = []"
    by (simp_all add: mount_session_def)
  have first: "count_list (log (session_run mount_session ds)) access_granted = 1"
    using session_run_admin [OF assms(2), of mount_session] assms(1) by (simp add: m)
  from assms have "admin_delivery (hd ds)" by simp
  from deliver_admin(1) [OF this, of mount_session]
  have "count_list (log (deliver mount_session (hd ds))) access_granted = 1"
    by (simp add: m commit_def)
  with first show ?thesis by simp
qed

theorem access_granted_exactly_once_witness:
  "count_list (log (session_run mount_session [admin_record_delivery, admin_record_delivery]))
     access_granted = 1"
proof -
  have a: "admin_delivery admin_record_delivery"
    by (simp add: admin_delivery_def admin_record_delivery_def)
  show ?thesis
    using access_granted_exactly_once [of "[admin_record_delivery, admin_record_delivery]"] a
    by simp
qed

text \<open>
  Why the commit matters: the callback reads the captured flag, so two deliveries
  that reached one and the same subscription would each emit the notification.
\<close>

lemma same_subscription_twice:
  "count_list (log (deliver (deliver mount_session admin_record_delivery) admin_record_delivery))
     access_granted = 2"
  by (simp add: deliver_def mount_session_def admin_record_delivery_def auth_callback_def
      Let_def access_granted_def)



section \<open>Upload and edit form: the claims\<close>

lemma uploadToCloudinary_no_write:
  "filter is_write (fst (uploadToCloudinary env n f rt)) = []"
  by (simp add: uploadToCloudinary_def split: upload_outcome.splits)

lemma upload_loop_no_write:
  "filter is_write (fst (upload_loop env t n files acc)) = []"
proof (induction files arbitrary: n acc)
  case Nil
  then show ?case by simp
next
  case (Cons f files)
  show ?case
  proof (cases "file_size f > maxSize t")
    case True
    then show ?thesis by simp
  next
    case False
    obtain effects r where u: "uploadToCloudinary env n f (resourceType t) = (effects, r)"
      by (cases "uploadToCloudinary env n f (resourceType t)")
    have nw: "filter is_write effects = []"
      using uploadToCloudinary_no_write [of env n f "resourceType t"] u by simp
    show ?thesis
    proof (cases r)
      case (Inl msg)
      with False u nw show ?thesis by simp
    next
      case (Inr url)
      obtain effects' r' where l: "upload_loop env t (Suc n) files
          (acc @ [\<lparr>type = resourceType t, url = url\<rparr>]) = (effects', r')"
        by (cases "upload_loop env t (Suc n) files (acc @ [\<lparr>type = resourceType t, url = url\<rparr>])")
      with Cons.IH [of "Suc n" "acc @ [\<lparr>type = resourceType t, url = url\<rparr>]"]
      have "filter is_write effects' = []" by simp
      with False u nw Inr l show ?thesis by simp
    qed
  qed
qed

lemma upload_loop_oversized_general:
  assumes "file_size file > maxSize t"
  shows "\<exists>k msg. k \<le> length pre
           \<and> filter is_upload (fst (upload_loop env t n (pre @ file # post) acc))
               = map (\<lambda>f. Fetch_upload f (resourceType t)) (take k pre)
           \<and> snd (upload_loop env t n (pre @ file # post) acc) = Inl msg"
proof (induction pre arbitrary: n acc)
  case Nil
  from assms show ?case by simp
next
  case (Cons f pre)
  show ?case
  proof (cases "file_size f > maxSize t")
    case True
    then have "filter is_upload (fst (upload_loop env t n ((f # pre) @ file # post) acc))
          = map (\<lambda>f. Fetch_upload f (resourceType t)) (take 0 (f # pre))
        \<and> snd (upload_loop env t n ((f # pre) @ file # post) acc) = Inl (size_limit_message f)"
      by simp
    then show ?thesis by blast
  next
    case False
    show ?thesis
    proof (cases "cloudinary_configured env")
      case nc: False
      with False have "filter is_upload (fst (upload_loop env t n ((f # pre) @ file # post) acc))
          = map (\<lambda>f. Fetch_upload f (resourceType t)) (take 0 (f # pre))
        \<and> (\<exists>msg. snd (upload_loop env t n ((f # pre) @ file # post) acc) = Inl msg)"
        by (simp add: uploadToCloudinary_def)
      then show ?thesis by blast
    next
      case True
      show ?thesis
      proof (cases "upload_answer env n")
        case (fetch_rejected m)
        with False True have "filter is_upload (fst (upload_loop env t n ((f # pre) @ file # post) acc))
          = map (\<lambda>f. Fetch_upload f (resourceType t)) (take 1 (f # pre))
        \<and> (\<exists>msg. snd (upload_loop env t n ((f # pre) @ file # post) acc) = Inl msg)"
          by (simp add: uploadToCloudinary_def)
        moreover have "1 \<le> length (f # pre)" by simp
        ultimately show ?thesis by blast
      next
        case (response_not_ok m)
        with False True have "filter is_upload (fst (upload_loop env t n ((f # pre) @ file # post) acc))
          = map (\<lambda>f. Fetch_upload f (resourceType t)) (take 1 (f # pre))
        \<and> (\<exists>msg. snd (upload_loop env t n ((f # pre) @ file # post) acc) = Inl msg)"
          by (simp add: uploadToCloudinary_def)
        moreover have "1 \<le> length (f # pre)" by simp
        ultimately show ?thesis by blast
      next
        case (response_ok u)
        let ?acc = "acc @ [\<lparr>type = resourceType t, url = u\<rparr>]"
        from Cons.IH [of "Suc n" ?acc] obtain k msg where k: "k \<le> length pre"
          and up: "filter is_upload (fst (upload_loop env t (Suc n) (pre @ file # post) ?acc))
               = map (\<lambda>f. Fetch_upload f (resourceType t)) (take k pre)"
          and res: "snd (upload_loop env t (Suc n) (pre @ file # post) ?acc) = Inl msg"
          by blast
        obtain effects' r' where l: "upload_loop env t (Suc n) (pre @ file # post) ?acc = (effects', r')"
          by (cases "upload_loop env t (Suc n) (pre @ file # post) ?acc")
        from False True response_ok l up res
        have "filter is_upload (fst (upload_loop env t n ((f # pre) @ file # post) acc))
               = map (\<lambda>f. Fetch_upload f (resourceType t)) (take (Suc k) (f # pre))
           \<and> snd (upload_loop env t n ((f # pre) @ file # post) acc) = Inl msg"
          by (simp add: uploadToCloudinary_def)
        moreover from k have "Suc k \<le> length (f # pre)" by simp
        ultimately show ?thesis by blast
      qed
    qed
  qed
qed

lemma upload_loop_oversized_exact:
  assumes "file_size file > maxSize t"
    and "cloudinary_configured env"
  shows "(\<forall>j < length pre. \<exists>u. upload_answer env (n + j) = response_ok u) \<Longrightarrow>
         (\<forall>f \<in> set pre. file_size f \<le> maxSize t) \<Longrightarrow>
         upload_loop env t n (pre @ file # post) acc
           = (concat (map (\<lambda>f. [Fetch_upload f (resourceType t), SetUploadProgress 100]) pre),
              Inl (size_limit_message file))"
proof (induction pre arbitrary: n acc)
  case Nil
  from assms show ?case by simp
next
  case (Cons f pre)
  from Cons.prems(1) [rule_format, of 0] obtain u where u: "upload_answer env n = response_ok u"
    by auto
  have nxt: "\<forall>j < length pre. \<exists>u. upload_answer env (Suc n + j) = response_ok u"
  proof (intro allI impI)
    fix j assume "j < length pre"
    then have "Suc j < length (f # pre)" by simp
    from Cons.prems(1) [rule_format, OF this] show "\<exists>u. upload_answer env (Suc n + j) = response_ok u"
      by simp
  qed
  from Cons.prems(2) have ok: "\<not> file_size f > maxSize t" and rest: "\<forall>f \<in> set pre. file_size f \<le> maxSize t"
    by auto
  from Cons.IH [OF nxt rest, of "acc @ [\<lparr>type = resourceType t, url = u\<rparr>]"] ok u assms(2)
  show ?case by (simp add: uploadToCloudinary_def)
qed





lemma onSubmit_admin:
  assumes "props_user props = Some u" and "role_result env = RecordPresent (Some ''admin'')"
  shows "onSubmit props fs env data =
           GetDoc_users (uid u) # [SetIsLoading True, SetUploadProgress 0]
           @ (case try_block u props fs env data of
                (effects, None) \<Rightarrow> effects
              | (effects, Some msg) \<Rightarrow>
                  effects
                  @ [ConsoleError,
                     ShowToast error
                       (if msg \<noteq> [] then msg
                        else if initialData props \<noteq> None then ''Update failed''
                        else ''Upload failed''),
                     SetUploadProgress 0])
           @ [SetIsLoading False]"
  using assms by (simp add: onSubmit_def)

lemma onSubmit_not_admin:
  assumes "props_user props = None \<or> role_result env \<noteq> RecordPresent (Some ''admin'')"
  shows "filter is_mutation (onSubmit props fs env data) = []"
    and "\<exists>m. last (onSubmit props fs env data) = ShowToast error m"
    and "SetIsLoading True \<notin> set (onSubmit props fs env data)"
  using assms
  by (auto simp: onSubmit_def split: option.splits role_fetch.splits)


text \<open>
  Claim C5. On every submission the caller's role is fetched again from the remote
  record before anything mutating happens: the fetch is the first effect of
  \<open>onSubmit\<close>; a file upload or a record create or update occurs only when that
  fetch succeeded, the record exists and its role is \<open>admin\<close>; in every other
  case the submission performs no mutation, does not even enter the loading state,
  and ends with an error notification.
\<close>

theorem role_reverified_before_mutation:
  "(filter is_mutation (onSubmit props fs env data) \<noteq> [] \<longrightarrow>
      (\<exists>u. props_user props = Some u) \<and> role_result env = RecordPresent (Some ''admin''))
   \<and> (\<forall>u. props_user props = Some u \<longrightarrow>
        (\<exists>rest. onSubmit props fs env data = GetDoc_users (uid u) # rest))
   \<and> (props_user props = None \<or> role_result env \<noteq> RecordPresent (Some ''admin'') \<longrightarrow>
        filter is_mutation (onSubmit props fs env data) = []
        \<and> (\<exists>m. last (onSubmit props fs env data) = ShowToast error m)
        \<and> SetIsLoading True \<notin> set (onSubmit props fs env data))"
proof -
  have a: "filter is_mutation (onSubmit props fs env data) \<noteq> [] \<longrightarrow>
      (\<exists>u. props_user props = Some u) \<and> role_result env = RecordPresent (Some ''admin'')"
  proof (intro impI)
    assume m: "filter is_mutation (onSubmit props fs env data) \<noteq> []"
    have "\<not> (props_user props = None \<or> role_result env \<noteq> RecordPresent (Some ''admin''))"
      using onSubmit_not_admin(1) [of props env fs data] m by blast
    then show "(\<exists>u. props_user props = Some u) \<and> role_result env = RecordPresent (Some ''admin'')"
      by (cases "props_user props") simp_all
  qed
  have b: "\<forall>u. props_user props = Some u \<longrightarrow>
        (\<exists>rest. onSubmit props fs env data = GetDoc_users (uid u) # rest)"
    by (simp add: onSubmit_def)
  have c: "props_user props = None \<or> role_result env \<noteq> RecordPresent (Some ''admin'') \<longrightarrow>
        filter is_mutation (onSubmit props fs env data) = []
        \<and> (\<exists>m. last (onSubmit props fs env data) = ShowToast error m)
        \<and> SetIsLoading True \<notin> set (onSubmit props fs env data)"
    using onSubmit_not_admin [of props env fs data] by blast
  from a b c show ?thesis by blast
qed

theorem role_reverified_before_mutation_witness:
  "onSubmit new_project_props three_files editor_env poster_form =
     [GetDoc_users ''uid-1'', ShowToast error ''Admin privileges required for upload.'']
   \<and> filter is_mutation (onSubmit new_project_props three_files editor_env poster_form) = []"
proof -
  have r: "role_result editor_env \<noteq> RecordPresent (Some ''admin'')"
    by (simp add: editor_env_def)
  have t: "onSubmit new_project_props three_files editor_env poster_form =
     [GetDoc_users ''uid-1'', ShowToast error ''Admin privileges required for upload.'']"
    by (simp add: onSubmit_def new_project_props_def editor_env_def admin_user_def)
  from role_reverified_before_mutation [of new_project_props three_files editor_env poster_form] r t
  show ?thesis by blast
qed

text \<open>
  Claim C8. During a submission with selected files each file is compared with its
  cap (50 MiB for the \<open>motion\<close> type, 5 MiB for the others) before its upload
  request. When a file exceeds the cap, no record is written, and the only upload
  requests are requests for files before it; when the files before it are within
  the cap and their uploads succeed, each of them is uploaded, in order, the
  offending file and the files after it are not, the error notification is the
  word \<open>File\<close>, the offending file's name in double quotes, and the words
  \<open>exceeds the size limit\<close>, and nothing undoes the completed uploads.
\<close>

theorem oversized_file_aborts_submission:
  assumes "props_user props = Some u" and "role_result env = RecordPresent (Some ''admin'')"
    and "selectedFiles fs = pre @ file # post"
    and "file_size file > maxSize (selectedType fs)"
  shows "filter is_write (onSubmit props fs env data) = []
     \<and> (\<exists>k \<le> length pre. filter is_upload (onSubmit props fs env data)
            = map (\<lambda>f. Fetch_upload f (resourceType (selectedType fs))) (take k pre))
     \<and> ((\<forall>f \<in> set pre. file_size f \<le> maxSize (selectedType fs))
          \<and> uploads_succeed env (length pre) \<longrightarrow>
         onSubmit props fs env data =
           [GetDoc_users (uid u), SetIsLoading True, SetUploadProgress 0,
            ShowToast warning ''Uploading media...'']
           @ concat (map (\<lambda>f. [Fetch_upload f (resourceType (selectedType fs)),
                                SetUploadProgress 100]) pre)
           @ [ConsoleError,
              ShowToast error
                (''File '' @ [CHR 0x22] @ file_name file @ [CHR 0x22]
                 @ '' exceeds the size limit''),
              SetUploadProgress 0, SetIsLoading False])
     \<and> maxSize motion = 50 * 1024 * 1024
     \<and> maxSize graphics = 5 * 1024 * 1024 \<and> maxSize frontend = 5 * 1024 * 1024"
proof -
  let ?t = "selectedType fs"
  obtain effects r where l: "upload_loop env ?t 0 (pre @ file # post) [] = (effects, r)"
    by (cases "upload_loop env ?t 0 (pre @ file # post) []")
  from upload_loop_oversized_general [OF assms(4), of pre env 0 post "[]"] l
  obtain k msg where k: "k \<le> length pre"
    and up: "filter is_upload effects = map (\<lambda>f. Fetch_upload f (resourceType ?t)) (take k pre)"
    and res: "r = Inl msg"
    by auto
  have nw: "filter is_write effects = []"
    using upload_loop_no_write [of env ?t 0 "pre @ file # post" "[]"] l by simp
  have tb: "try_block u props fs env data = (ShowToast warning ''Uploading media...'' # effects, Some msg)"
    using assms(3) l res by (simp add: try_block_def)
  have run: "onSubmit props fs env data =
      [GetDoc_users (uid u), SetIsLoading True, SetUploadProgress 0,
       ShowToast warning ''Uploading media...'']
      @ effects
      @ [ConsoleError,
         ShowToast error (if msg \<noteq> [] then msg
                          else if initialData props \<noteq> None then ''Update failed''
                          else ''Upload failed''),
         SetUploadProgress 0, SetIsLoading False]"
    using onSubmit_admin [OF assms(1,2), of fs data] tb by simp
  have w: "filter is_write (onSubmit props fs env data) = []"
    by (simp add: run nw)
  have u: "filter is_upload (onSubmit props fs env data)
            = map (\<lambda>f. Fetch_upload f (resourceType ?t)) (take k pre)"
    by (simp add: run up)
  have exact: "(\<forall>f \<in> set pre. file_size f \<le> maxSize ?t) \<and> uploads_succeed env (length pre) \<longrightarrow>
         onSubmit props fs env data =
           [GetDoc_users (uid u), SetIsLoading True, SetUploadProgress 0,
            ShowToast warning ''Uploading media...'']
           @ concat (map (\<lambda>f. [Fetch_upload f (resourceType ?t), SetUploadProgress 100]) pre)
           @ [ConsoleError,
              ShowToast error
                (''File '' @ [CHR 0x22] @ file_name file @ [CHR 0x22]
                 @ '' exceeds the size limit''),
              SetUploadProgress 0, SetIsLoading False]"
  proof (intro impI, elim conjE)
    assume within: "\<forall>f \<in> set pre. file_size f \<le> maxSize ?t"
      and ok: "uploads_succeed env (length pre)"
    from ok have cfg: "cloudinary_configured env"
      and ans: "\<forall>j < length pre. \<exists>u. upload_answer env (0 + j) = response_ok u"
      by (simp_all add: uploads_succeed_def)
    from upload_loop_oversized_exact [OF assms(4) cfg ans within, of post "[]"] l
    have e: "effects = concat (map (\<lambda>f. [Fetch_upload f (resourceType ?t), SetUploadProgress 100]) pre)"
      and m: "r = Inl (size_limit_message file)"
      by simp_all
    from m res have "msg = size_limit_message file" by simp
    moreover have "size_limit_message file \<noteq> []" by (simp add: size_limit_message_def)
    ultimately show "onSubmit props fs env data =
           [GetDoc_users (uid u), SetIsLoading True, SetUploadProgress 0,
            ShowToast warning ''Uploading media...'']
           @ concat (map (\<lambda>f. [Fetch_upload f (resourceType ?t), SetUploadProgress 100]) pre)
           @ [ConsoleError,
              ShowToast error
                (''File '' @ [CHR 0x22] @ file_name file @ [CHR 0x22]
                 @ '' exceeds the size limit''),
              SetUploadProgress 0, SetIsLoading False]"
      using run e by (simp add: size_limit_message_def)
  qed
  have caps: "maxSize motion = 50 * 1024 * 1024"
    "maxSize graphics = 5 * 1024 * 1024" "maxSize frontend = 5 * 1024 * 1024"
    by (simp_all add: maxSize_def)
  from w u k exact caps show ?thesis by blast
qed

theorem oversized_file_aborts_submission_witness:
  "onSubmit new_project_props three_files admin_env poster_form =
     [GetDoc_users ''uid-1'', SetIsLoading True, SetUploadProgress 0,
      ShowToast warning ''Uploading media...'',
      Fetch_upload small_file image, SetUploadProgress 100,
      ConsoleError,
      ShowToast error
        (''File '' @ [CHR 0x22] @ ''huge.png'' @ [CHR 0x22] @ '' exceeds the size limit''),
      SetUploadProgress 0, SetIsLoading False]
   \<and> filter is_write (onSubmit new_project_props three_files admin_env poster_form) = []"
proof -
  have h: "props_user new_project_props = Some admin_user"
    "role_result admin_env = RecordPresent (Some ''admin'')"
    "selectedFiles three_files = [small_file] @ big_file # [small_file]"
    "file_size big_file > maxSize (selectedType three_files)"
    by (simp_all add: new_project_props_def admin_env_def three_files_def big_file_def maxSize_def)
  have g: "\<forall>f \<in> set [small_file]. file_size f \<le> maxSize (selectedType three_files)"
    "uploads_succeed admin_env (length [small_file])"
    by (simp_all add: small_file_def three_files_def maxSize_def uploads_succeed_def admin_env_def)
  have n: "file_name big_file = ''huge.png''" by (simp add: big_file_def)
  from oversized_file_aborts_submission [OF h, of poster_form] g n
  show ?thesis
    by (simp add: admin_user_def three_files_def resourceType_def)
qed















lemma trim_example:
  "trim ([CHR 0x20, CHR 0xC2, CHR 0xA0] @ ''https://x.example/a b'' @ [CHR 0xE2, CHR 0x80, CHR 0xA8, CHR 0x0A])
     = ''https://x.example/a b''"
  by (simp add: trim_def trimStart_def trimEnd_def whitespace_encodings_def)








end
